theory Spec2Isabelle
  imports Main "HOL-Library.Sublist"
begin

section \<open>The apk module: data model\<close>

text \<open>
  The module drives the external \<^verbatim>\<open>apk\<close> binary through \<^verbatim>\<open>module.run_command\<close>.
  The binary is not part of the program: it is a parameter of the model, a function from
  the command line and the state of the package database to a return code, the text
  written to stdout, and the new state of the database.

  The value of the \<^verbatim>\<open>state\<close> parameter is one of the five \<^verbatim>\<open>choices\<close> of the
  argument spec.
\<close>

datatype state_choice = Present | Installed | Absent | Removed | Latest

record params =
  p_state :: state_choice
  p_name :: "string list option"
  p_update_cache :: bool
  p_upgrade :: bool

text \<open>
  The command lines the module builds. \<open>render\<close> gives the exact string handed to
  \<^verbatim>\<open>run_command\<close>; the flags are the upgrade modifier and check mode.
\<close>

datatype cmd =
    Apk_update
  | Apk_info string
  | Apk_version string
  | Apk_upgrade bool
  | Apk_add bool bool "string list"
  | Apk_del bool "string list"

text \<open>\<^verbatim>\<open>" ".join(names)\<close>\<close>

fun join_sp :: "string list \<Rightarrow> string" where
  "join_sp [] = []"
| "join_sp [x] = x"
| "join_sp (x # y # ys) = x @ '' '' @ join_sp (y # ys)"

fun render :: "cmd \<Rightarrow> string" where
  "render Apk_update = ''apk update''"
| "render (Apk_info name) = ''apk -v info --installed '' @ name"
| "render (Apk_version name) = ''apk version '' @ name"
| "render (Apk_upgrade sim) = (if sim then ''apk upgrade --simulate'' else ''apk upgrade'')"
| "render (Apk_add upgrade sim names) =
     (if upgrade then
        (if sim then ''apk add --upgrade --simulate '' @ join_sp names
         else ''apk add --upgrade '' @ join_sp names)
      else
        (if sim then ''apk add --simulate '' @ join_sp names
         else ''apk add '' @ join_sp names))"
| "render (Apk_del sim names) =
     (if sim then ''apk del --purge --simulate '' @ join_sp names
      else ''apk del --purge '' @ join_sp names)"

text \<open>
  The module object: check mode and the backend behind \<^verbatim>\<open>run_command\<close>. The state of a
  run is the state of the package database together with the commands issued so far.
\<close>

record 'w module =
  check_mode :: bool
  backend :: "string \<Rightarrow> 'w \<Rightarrow> (int \<times> string) \<times> 'w"

record 'w sys =
  world :: 'w
  log :: "cmd list"

text \<open>
  How the process ends: \<^verbatim>\<open>exit_json(changed, msg)\<close>, \<^verbatim>\<open>fail_json(msg)\<close>, an uncaught
  \<^verbatim>\<open>TypeError\<close> (iterating over \<^verbatim>\<open>None\<close>), or \<open>main\<close> returning without a report.
\<close>

datatype outcome =
    Exit_json bool string
  | Fail_json string
  | Uncaught_TypeError
  | No_report


definition run_command :: "'w module \<Rightarrow> cmd \<Rightarrow> 'w sys \<Rightarrow> (int \<times> string) \<times> 'w sys" where
  "run_command m c s =
     (case backend m (render c) (world s) of
        (r, w') \<Rightarrow> (r, \<lparr>world = w', log = log s @ [c]\<rparr>))"

section \<open>The regular expression of \<open>query_latest\<close>\<close>

text \<open>
  The pattern is
  \<^verbatim>\<open>"(%s)-[\d\.\w]+-[\d\w]+\s+(.)\s+[\d\.\w]+-[\d\w]+\s+" % (name)\<close>.
  It is a sequence of single characters, greedy \<^verbatim>\<open>+\<close> repetitions of a character class,
  and the capturing group 2 around \<^verbatim>\<open>.\<close>. The classes are those of byte strings:
  \<^verbatim>\<open>\w\<close> is \<^verbatim>\<open>[a-zA-Z0-9_]\<close> (it contains \<^verbatim>\<open>\d\<close>), \<^verbatim>\<open>\s\<close> is \<^verbatim>\<open>[ \t\n\r\f\v]\<close>,
  and \<^verbatim>\<open>.\<close> is any character but the newline.
\<close>

datatype cls = Word | Word_dot | Space

datatype item = Chr char | Plus cls | Any_group

definition word_chars :: "char list" where
  "word_chars = ''abcdefghijklmnopqrstuvwxyzABCDEFGHIJKLMNOPQRSTUVWXYZ0123456789_''"

definition space_chars :: "char list" where
  "space_chars = [CHR '' '', CHR 0x09, CHR 0x0A, CHR 0x0B, CHR 0x0C, CHR 0x0D]"

fun in_cls :: "cls \<Rightarrow> char \<Rightarrow> bool" where
  "in_cls Word c = (c \<in> set word_chars)"
| "in_cls Word_dot c = (c \<in> set word_chars \<or> c = CHR ''.'')"
| "in_cls Space c = (c \<in> set space_chars)"

text \<open>
  The backtracking matcher. \<open>greedy_splits C s\<close> lists what is left of \<open>s\<close> after a
  non-empty run of class \<open>C\<close>, the longest run first. \<open>match_here its s g\<close> lists the
  value of group 2 for every way the items match a prefix of \<open>s\<close>, in the order a
  backtracking engine finds them; the engine stops at the first.
\<close>

fun greedy_splits :: "cls \<Rightarrow> string \<Rightarrow> string list" where
  "greedy_splits C [] = []"
| "greedy_splits C (x # xs) = (if in_cls C x then greedy_splits C xs @ [xs] else [])"

fun match_here :: "item list \<Rightarrow> string \<Rightarrow> string option \<Rightarrow> string option list" where
  "match_here [] s g = [g]"
| "match_here (Chr c # its) s g =
     (case s of [] \<Rightarrow> [] | x # xs \<Rightarrow> if x = c then match_here its xs g else [])"
| "match_here (Any_group # its) s g =
     (case s of [] \<Rightarrow> []
      | x # xs \<Rightarrow> if x \<noteq> CHR 0x0A then match_here its xs (Some [x]) else [])"
| "match_here (Plus C # its) s g =
     concat (map (\<lambda>r. match_here its r g) (greedy_splits C s))"

datatype match = Match (group2: "string option")

text \<open>\<^verbatim>\<open>re.search\<close>: the first start position, from the left, with a match.\<close>

fun re_search :: "item list \<Rightarrow> string \<Rightarrow> match option" where
  "re_search its s =
     (case match_here its s None of
        g # gs \<Rightarrow> Some (Match g)
      | [] \<Rightarrow> (case s of [] \<Rightarrow> None | x # xs \<Rightarrow> re_search its xs))"

text \<open>
  The name is put into the pattern as it is, and the group \<^verbatim>\<open>(name)\<close> is read letter by
  letter. That is what the pattern means when the name has no regex metacharacter
  (\<open>plain_name\<close>); what is proved about the text the pattern finds is proved for such
  names.
\<close>

definition metachars :: "char list" where
  "metachars = CHR 0x5C # ''.^$*+?{}[]|()''"

definition plain_name :: "string \<Rightarrow> bool" where
  "plain_name name = list_all (\<lambda>c. c \<notin> set metachars) name"

definition search_pattern :: "string \<Rightarrow> item list" where
  "search_pattern name =
     map Chr name @
     [Chr CHR ''-'', Plus Word_dot, Chr CHR ''-'', Plus Word, Plus Space, Any_group,
      Plus Space, Plus Word_dot, Chr CHR ''-'', Plus Word, Plus Space]"

text \<open>
  Lines 112 to 116 of \<open>query_latest\<close>, on the text of stdout: the package is at its latest
  version unless the pattern is found and group 2 is \<^verbatim>\<open><\<close>.
\<close>

definition is_latest :: "string \<Rightarrow> string \<Rightarrow> bool" where
  "is_latest name stdout =
     (case re_search (search_pattern name) stdout of
        Some mt \<Rightarrow> if group2 mt = Some ''<'' then False else True
      | None \<Rightarrow> True)"

section \<open>The operations\<close>

definition update_package_db :: "'w module \<Rightarrow> 'w sys \<Rightarrow> (outcome + bool) \<times> 'w sys" where
  "update_package_db m s =
     (case run_command m Apk_update s of
        ((rc, stdout), s') \<Rightarrow>
          if rc = 0 then (Inr True, s')
          else (Inl (Fail_json ''could not update package db''), s'))"

definition query_package :: "'w module \<Rightarrow> string \<Rightarrow> 'w sys \<Rightarrow> bool \<times> 'w sys" where
  "query_package m name s =
     (case run_command m (Apk_info name) s of
        ((rc, stdout), s') \<Rightarrow> if rc = 0 then (True, s') else (False, s'))"

definition query_latest :: "'w module \<Rightarrow> string \<Rightarrow> 'w sys \<Rightarrow> bool \<times> 'w sys" where
  "query_latest m name s =
     (case run_command m (Apk_version name) s of
        ((rc, stdout), s') \<Rightarrow> (is_latest name stdout, s'))"

text \<open>\<^verbatim>\<open>re.search('^OK', stdout)\<close>, without the multi-line flag: stdout begins with OK.\<close>

definition starts_OK :: "string \<Rightarrow> bool" where
  "starts_OK stdout = (take 2 stdout = ''OK'')"

definition upgrade_packages :: "'w module \<Rightarrow> 'w sys \<Rightarrow> outcome \<times> 'w sys" where
  "upgrade_packages m s =
     (case run_command m (Apk_upgrade (check_mode m)) s of
        ((rc, stdout), s') \<Rightarrow>
          if rc \<noteq> 0 then (Fail_json ''failed to upgrade packages'', s')
          else if starts_OK stdout then (Exit_json False ''packages already upgraded'', s')
          else (Exit_json True ''upgraded packages'', s'))"

text \<open>
  The loop of \<open>install_packages\<close> (lines 133 to 137), with the two variables it updates,
  \<open>upgrade\<close> and \<open>uninstalled\<close>.
\<close>

fun install_scan ::
  "'w module \<Rightarrow> state_choice \<Rightarrow> string list \<Rightarrow> bool \<Rightarrow> string list \<Rightarrow> 'w sys
     \<Rightarrow> (bool \<times> string list) \<times> 'w sys" where
  "install_scan m st [] upgrade uninstalled s = ((upgrade, uninstalled), s)"
| "install_scan m st (name # names) upgrade uninstalled s =
     (case query_package m name s of
        (inst, s1) \<Rightarrow>
          if \<not> inst then install_scan m st names upgrade (uninstalled @ [name]) s1
          else if st = Latest then
            (case query_latest m name s1 of
               (lat, s2) \<Rightarrow>
                 if \<not> lat then install_scan m st names True uninstalled s2
                 else install_scan m st names upgrade uninstalled s2)
          else install_scan m st names upgrade uninstalled s1)"

definition install_packages ::
  "'w module \<Rightarrow> string list \<Rightarrow> state_choice \<Rightarrow> 'w sys \<Rightarrow> outcome \<times> 'w sys" where
  "install_packages m names st s =
     (case install_scan m st names False [] s of
        ((upgrade, uninstalled), s1) \<Rightarrow>
          if uninstalled = [] \<and> \<not> upgrade then
            (Exit_json False ''package(s) already installed'', s1)
          else
            (case run_command m (Apk_add upgrade (check_mode m) uninstalled) s1 of
               ((rc, stdout), s2) \<Rightarrow>
                 if rc \<noteq> 0 then (Fail_json (''failed to install '' @ join_sp uninstalled), s2)
                 else (Exit_json True
                         (''installed '' @ join_sp uninstalled @ '' package(s)''), s2)))"

text \<open>The loop of \<open>remove_packages\<close> (lines 158 to 160).\<close>

fun remove_scan ::
  "'w module \<Rightarrow> string list \<Rightarrow> string list \<Rightarrow> 'w sys \<Rightarrow> string list \<times> 'w sys" where
  "remove_scan m [] installed s = (installed, s)"
| "remove_scan m (name # names) installed s =
     (case query_package m name s of
        (inst, s1) \<Rightarrow>
          if inst then remove_scan m names (installed @ [name]) s1
          else remove_scan m names installed s1)"

definition remove_packages :: "'w module \<Rightarrow> string list \<Rightarrow> 'w sys \<Rightarrow> outcome \<times> 'w sys" where
  "remove_packages m names s =
     (case remove_scan m names [] s of
        (installed, s1) \<Rightarrow>
          if installed = [] then (Exit_json False ''package(s) already removed'', s1)
          else
            (case run_command m (Apk_del (check_mode m) installed) s1 of
               ((rc, stdout), s2) \<Rightarrow>
                 if rc \<noteq> 0 then
                   (Fail_json (''failed to remove '' @ join_sp installed @ '' package(s)''), s2)
                 else
                   (Exit_json True (''removed '' @ join_sp installed @ '' package(s)''), s2)))"

section \<open>Main control flow\<close>

text \<open>Lines 194 to 197: the aliases of the state parameter.\<close>

fun normalize_state :: "state_choice \<Rightarrow> state_choice" where
  "normalize_state Present = Present"
| "normalize_state Installed = Present"
| "normalize_state Absent = Absent"
| "normalize_state Removed = Absent"
| "normalize_state Latest = Latest"

text \<open>\<^verbatim>\<open>not p['name']\<close>: the name list is \<^verbatim>\<open>None\<close> or empty.\<close>

fun no_names :: "string list option \<Rightarrow> bool" where
  "no_names None = True"
| "no_names (Some names) = (names = [])"

text \<open>
  \<open>main\<close> from line 188 on. \<open>apk_exists\<close> is the result of \<^verbatim>\<open>os.path.exists(APK_PATH)\<close>.
  \<open>exit_json\<close> and \<open>fail_json\<close> end the process, so each is a return of the model. The
  two package operations iterate over \<^verbatim>\<open>p['name']\<close>, which raises \<^verbatim>\<open>TypeError\<close> when
  it is \<^verbatim>\<open>None\<close>. The parameters are taken as \<^verbatim>\<open>AnsibleModule\<close> hands them over; its
  own argument checks are not part of this file.
\<close>

definition main :: "'w module \<Rightarrow> bool \<Rightarrow> params \<Rightarrow> 'w sys \<Rightarrow> outcome \<times> 'w sys" where
  "main m apk_exists p s =
     (if \<not> apk_exists then (Fail_json ''cannot find apk, looking for /sbin/apk'', s)
      else
        let st = normalize_state (p_state p) in
        (case (if p_update_cache p then
                 (case update_package_db m s of
                    (Inl e, s1) \<Rightarrow> (Inl e, s1)
                  | (Inr ok, s1) \<Rightarrow>
                      if no_names (p_name p) then
                        (Inl (Exit_json True ''updated repository indexes''), s1)
                      else (Inr ok, s1))
               else (Inr True, s)) of
           (Inl e, s1) \<Rightarrow> (e, s1)
         | (Inr ok, s1) \<Rightarrow>
             if p_upgrade p then upgrade_packages m s1
             else if st = Present \<or> st = Latest then
               (case p_name p of
                  None \<Rightarrow> (Uncaught_TypeError, s1)
                | Some names \<Rightarrow> install_packages m names st s1)
             else if st = Absent then
               (case p_name p of
                  None \<Rightarrow> (Uncaught_TypeError, s1)
                | Some names \<Rightarrow> remove_packages m names s1)
             else (No_report, s1)))"

section \<open>Observing a run\<close>

text \<open>
  The names a run hands to \<^verbatim>\<open>apk add\<close> and to \<^verbatim>\<open>apk del\<close>, read off the commands
  issued.
\<close>

fun add_names :: "cmd \<Rightarrow> string list" where
  "add_names (Apk_add upgrade sim names) = names"
| "add_names _ = []"

fun del_names :: "cmd \<Rightarrow> string list" where
  "del_names (Apk_del sim names) = names"
| "del_names _ = []"

definition install_batch :: "cmd list \<Rightarrow> string list" where
  "install_batch cs = concat (map add_names cs)"

definition remove_batch :: "cmd list \<Rightarrow> string list" where
  "remove_batch cs = concat (map del_names cs)"

text \<open>What the backend answers to the two queries in a given state of the database.\<close>

definition is_installed :: "'w module \<Rightarrow> 'w \<Rightarrow> string \<Rightarrow> bool" where
  "is_installed m w name = (fst (fst (backend m (''apk -v info --installed '' @ name) w)) = 0)"

definition version_output :: "'w module \<Rightarrow> 'w \<Rightarrow> string \<Rightarrow> string" where
  "version_output m w name = snd (fst (backend m (''apk version '' @ name) w))"

text \<open>The queries are read-only: they leave the package database as it is.\<close>

definition read_only :: "'w module \<Rightarrow> bool" where
  "read_only m =
     (\<forall>w name. snd (backend m (''apk -v info --installed '' @ name) w) = w
             \<and> snd (backend m (''apk version '' @ name) w) = w)"




text \<open>
  The arguments of a command line: the words between the spaces. \<open>spaced\<close> puts a space
  before each name, the way the names follow the fixed part of a command line.
\<close>

fun words_acc :: "string \<Rightarrow> string \<Rightarrow> string list" where
  "words_acc acc [] = (if acc = [] then [] else [rev acc])"
| "words_acc acc (x # xs) =
     (if x = CHR '' '' then (if acc = [] then words_acc [] xs else rev acc # words_acc [] xs)
      else words_acc (x # acc) xs)"

definition words_of :: "string \<Rightarrow> string list" where
  "words_of s = words_acc [] s"

definition spaced :: "string list \<Rightarrow> string" where
  "spaced names = concat (map (\<lambda>n. CHR '' '' # n) names)"


section \<open>What the pattern matches\<close>

text \<open>
  The text the pattern describes, without reference to the matcher: \<open>s\<close> begins with
  the name, a dash, a version (word characters and dots), a dash, a release (word
  characters), white space, the marker, white space, and again version, dash, release
  and white space. Every run is non-empty.
\<close>

definition run_of :: "cls \<Rightarrow> string \<Rightarrow> bool" where
  "run_of C u = (u \<noteq> [] \<and> list_all (in_cls C) u)"

definition entry_here :: "string \<Rightarrow> char \<Rightarrow> string \<Rightarrow> bool" where
  "entry_here name mk s =
     (\<exists>v1 r1 w1 w2 v2 r2 w3 rest.
        s = name @ ''-'' @ v1 @ ''-'' @ r1 @ w1 @ [mk] @ w2 @ v2 @ ''-'' @ r2 @ w3 @ rest
      \<and> run_of Word_dot v1 \<and> run_of Word r1 \<and> run_of Space w1 \<and> mk \<noteq> CHR 0x0A
      \<and> run_of Space w2 \<and> run_of Word_dot v2 \<and> run_of Word r2 \<and> run_of Space w3)"

text \<open>Such a text begins at position \<open>i\<close> of the output.\<close>

definition entry_at :: "string \<Rightarrow> char \<Rightarrow> string \<Rightarrow> nat \<Rightarrow> bool" where
  "entry_at name mk out i = (i \<le> length out \<and> entry_here name mk (drop i out))"

text \<open>
  The update query as the specification words it (section 4.3): the output is read line
  by line, a line belongs to the package when its first field is the package name
  followed by a dash and the installed version, and it reports an update when the
  marker between the two version fields is \<^verbatim>\<open><\<close>.
\<close>

fun split_on :: "(char \<Rightarrow> bool) \<Rightarrow> string \<Rightarrow> string \<Rightarrow> string list" where
  "split_on P acc [] = [rev acc]"
| "split_on P acc (x # xs) =
     (if P x then rev acc # split_on P [] xs else split_on P (x # acc) xs)"

definition lines_of :: "string \<Rightarrow> string list" where
  "lines_of out = split_on (\<lambda>c. c = CHR 0x0A) [] out"

definition fields_of :: "string \<Rightarrow> string list" where
  "fields_of l = filter (\<lambda>f. f \<noteq> []) (split_on (in_cls Space) [] l)"

definition spec_own_line_newer :: "string \<Rightarrow> string \<Rightarrow> bool" where
  "spec_own_line_newer name l =
     (case fields_of l of
        [inst, mk, cand] \<Rightarrow> take (length name + 1) inst = name @ ''-'' \<and> mk = ''<''
      | _ \<Rightarrow> False)"

definition spec_update_available :: "string \<Rightarrow> string \<Rightarrow> bool" where
  "spec_update_available name out = list_ex (spec_own_line_newer name) (lines_of out)"

section \<open>Backends for examples\<close>

text \<open>
  A package database in which foo is the only installed package. The installed query
  succeeds for foo and fails for every other name, the version listing of foo is the
  given text, and every other command returns the given code. Nothing changes the
  database.
\<close>

definition nl :: string where
  "nl = [CHR 0x0A]"

definition foo_backend ::
  "string \<Rightarrow> int \<Rightarrow> string \<Rightarrow> unit \<Rightarrow> (int \<times> string) \<times> unit" where
  "foo_backend listing rc c w =
     (if c = ''apk -v info --installed foo'' then ((0, ''foo-1.0-r0'' @ nl), w)
      else if c = ''apk version foo'' then ((0, listing), w)
      else if take 24 c = ''apk -v info --installed '' then ((1, []), w)
      else ((rc, ''OK: 5 MiB in 14 packages'' @ nl), w))"

text \<open>
  foo installed with an update available, and foo installed with a database that
  refuses every transaction.
\<close>

definition foo_stale :: "bool \<Rightarrow> unit module" where
  "foo_stale chk =
     \<lparr>check_mode = chk,
      backend = foo_backend
        (''Installed:         Available:'' @ nl @ ''foo-1.0-r0         < 1.1-r0 '' @ nl) 0\<rparr>"

definition foo_locked :: "bool \<Rightarrow> unit module" where
  "foo_locked chk =
     \<lparr>check_mode = chk,
      backend = foo_backend
        (''Installed:         Available:'' @ nl @ ''foo-1.1-r0         = 1.1-r0 '' @ nl) 1\<rparr>"

definition start :: "'w \<Rightarrow> 'w sys" where
  "start w = \<lparr>world = w, log = []\<rparr>"

text \<open>A backend that answers every command with return code 0 and a given text.\<close>

definition listing :: "string \<Rightarrow> unit module" where
  "listing out = \<lparr>check_mode = False, backend = (\<lambda>c w. ((0, out), w))\<rparr>"

text \<open>
  Two version listings. In the first the line of another package, libfoo, comes before
  the line of foo, which is up to date. In the second foo has two lines, the first
  saying up to date and the second saying an update is available.
\<close>

definition shadowed_listing :: string where
  "shadowed_listing = ''libfoo-1.0-r0 < 2.0-r0 '' @ nl @ ''foo-1.0-r0 = 1.0-r0 '' @ nl"

definition two_line_listing :: string where
  "two_line_listing = ''foo-1.0-r0 = 1.0-r0 '' @ nl @ ''foo-1.0-r0 < 1.1-r0 '' @ nl"

section \<open>A package database that changes\<close>

text \<open>
  A small stand-in for apk. The database lists the installed packages, each with a flag
  telling whether a newer version is available. The commands are read by their
  arguments: the installed query succeeds for installed packages; the version listing
  prints the line of the package with \<^verbatim>\<open><\<close> or \<^verbatim>\<open>=\<close>; \<^verbatim>\<open>apk add\<close> installs the named
  packages that are missing and, with \<^verbatim>\<open>--upgrade\<close>, brings the named packages that are
  installed up to date; \<^verbatim>\<open>apk del\<close> removes the named packages; \<^verbatim>\<open>apk upgrade\<close> brings
  every package up to date; with \<^verbatim>\<open>--simulate\<close> nothing changes.
\<close>

type_synonym db = "(string \<times> bool) list"

fun toy_install :: "bool \<Rightarrow> string \<Rightarrow> db \<Rightarrow> db" where
  "toy_install up n [] = [(n, False)]"
| "toy_install up n ((k, f) # w) =
     (if k = n then (k, if up then False else f) # w else (k, f) # toy_install up n w)"

definition toy_names :: "string list \<Rightarrow> string list" where
  "toy_names args = filter (\<lambda>a. take 2 a \<noteq> ''--'') args"

definition toy_listing :: "db \<Rightarrow> string list \<Rightarrow> string" where
  "toy_listing w args =
     (case args of
        [n] \<Rightarrow>
          (case map_of w n of
             None \<Rightarrow> []
           | Some f \<Rightarrow>
               n @ (if f then ''-1.0-r0 < 1.1-r0 '' else ''-1.1-r0 = 1.1-r0 '') @ nl)
      | _ \<Rightarrow> [])"

definition toy_apk :: "string \<Rightarrow> db \<Rightarrow> (int \<times> string) \<times> db" where
  "toy_apk c w =
     (let ws = words_of c; args = drop 2 ws; sim = (''--simulate'' \<in> set args) in
      if take 4 ws = [''apk'', ''-v'', ''info'', ''--installed''] then
        ((if list_all (\<lambda>n. n \<in> set (map fst w)) (drop 4 ws) then 0 else 1, []), w)
      else if take 2 ws = [''apk'', ''version''] then ((0, toy_listing w args), w)
      else if take 2 ws = [''apk'', ''add''] then
        ((0, ''OK: done'' @ nl),
         if sim then w else fold (toy_install (''--upgrade'' \<in> set args)) (toy_names args) w)
      else if take 2 ws = [''apk'', ''del''] then
        ((0, ''OK: done'' @ nl),
         if sim then w else filter (\<lambda>(k, f). k \<notin> set (toy_names args)) w)
      else if ws = [''apk'', ''update''] then ((0, ''OK: done'' @ nl), w)
      else if take 2 ws = [''apk'', ''upgrade''] then
        ((0, (if list_ex snd w then ''Upgrading'' @ nl else []) @ ''OK: done'' @ nl),
         if sim then w else map (\<lambda>(k, f). (k, False)) w)
      else ((1, []), w))"

definition toy :: "bool \<Rightarrow> db module" where
  "toy chk = \<lparr>check_mode = chk, backend = toy_apk\<rparr>"

section \<open>Facts about the operations\<close>

lemma run_command_eq:
  "run_command m c s =
     (fst (backend m (render c) (world s)),
      \<lparr>world = snd (backend m (render c) (world s)), log = log s @ [c]\<rparr>)"
  by (simp add: run_command_def split: prod.split)

lemma query_package_eq:
  "query_package m n s =
     (fst (fst (backend m (''apk -v info --installed '' @ n) (world s))) = 0,
      \<lparr>world = snd (backend m (''apk -v info --installed '' @ n) (world s)),
       log = log s @ [Apk_info n]\<rparr>)"
  by (simp add: query_package_def run_command_eq split: prod.split)


lemma query_package_ro:
  assumes "read_only m"
  shows "query_package m n s =
           (is_installed m (world s) n, \<lparr>world = world s, log = log s @ [Apk_info n]\<rparr>)"
  using assms by (simp add: query_package_eq is_installed_def read_only_def)



lemma remove_scan_ro:
  assumes "read_only m"
  shows "remove_scan m names inst s =
           (inst @ filter (is_installed m (world s)) names,
            \<lparr>world = world s, log = log s @ map Apk_info names\<rparr>)"
  by (induction names arbitrary: inst s) (simp_all add: query_package_ro [OF assms])

text \<open>The command lines with a batch that is not empty, written out.\<close>

lemma join_sp_spaced: "ns \<noteq> [] \<Longrightarrow> CHR '' '' # join_sp ns = spaced ns"
  by (induction ns rule: join_sp.induct) (simp_all add: spaced_def)





lemma remove_packages_ro:
  assumes "read_only m"
  shows "remove_packages m names s =
     (let w = world s;
          batch = filter (is_installed m w) names;
          qs = map Apk_info names;
          r = backend m (render (Apk_del (check_mode m) batch)) w
      in if batch = [] then
           (Exit_json False ''package(s) already removed'', \<lparr>world = w, log = log s @ qs\<rparr>)
         else
           (if fst (fst r) \<noteq> 0 then
              Fail_json (''failed to remove '' @ join_sp batch @ '' package(s)'')
            else Exit_json True (''removed '' @ join_sp batch @ '' package(s)''),
            \<lparr>world = snd r, log = log s @ qs @ [Apk_del (check_mode m) batch]\<rparr>))"
  by (simp add: remove_packages_def remove_scan_ro [OF assms] run_command_eq Let_def
      split: prod.split)





section \<open>The example backends\<close>

lemma foo_stale_read_only: "read_only (foo_stale chk)"
  by (simp add: read_only_def foo_stale_def foo_backend_def)

lemma foo_stale_installed: "is_installed (foo_stale chk) w n = (n = ''foo'')"
  by (simp add: is_installed_def foo_stale_def foo_backend_def)

lemma foo_locked_read_only: "read_only (foo_locked chk)"
  by (simp add: read_only_def foo_locked_def foo_backend_def)

lemma foo_locked_installed: "is_installed (foo_locked chk) w n = (n = ''foo'')"
  by (simp add: is_installed_def foo_locked_def foo_backend_def)



section \<open>Latest with a stale package\<close>

text \<open>
  C1. With state latest over the single name foo, foo installed and an update available,
  the claim is that the install batch names exactly foo, carries the upgrade modifier,
  and the run reports changed = true. The code sets the upgrade flag but appends only
  uninstalled names to the batch: the command line it runs is \<^verbatim>\<open>apk add --upgrade\<close>
  followed by no name at all, and the run reports changed = true.
\<close>

theorem C1_latest_stale_names_nothing:
  "main (foo_stale False) True
      \<lparr>p_state = Latest, p_name = Some [''foo''], p_update_cache = False, p_upgrade = False\<rparr>
      (start ())
   = (Exit_json True ''installed  package(s)'',
      \<lparr>world = (), log = [Apk_info ''foo'', Apk_version ''foo'', Apk_add True False []]\<rparr>)
   \<and> render (Apk_add True False []) = ''apk add --upgrade ''
   \<and> install_batch [Apk_info ''foo'', Apk_version ''foo'', Apk_add True False []] = []"
  by (simp add: main_def install_packages_def query_package_def query_latest_def
      run_command_def foo_stale_def foo_backend_def start_def nl_def is_latest_def
      search_pattern_def install_batch_def word_chars_def
      space_chars_def)

section \<open>Idempotence\<close>

text \<open>
  C2. A second run with the same desired state and names, on the database the first
  successful run has left, is claimed to report changed = false. For state latest it
  does not. On a database where foo is installed and an update is available, the first
  run hands the backend \<^verbatim>\<open>apk add --upgrade\<close> followed by no name, which succeeds and
  upgrades nothing; the run reports changed = true and foo is as stale as before. The
  second run finds the same database, issues the same commands and reports
  changed = true again.
\<close>

theorem C2_latest_run_repeats:
  "main (toy False) True
      \<lparr>p_state = Latest, p_name = Some [''foo''], p_update_cache = False, p_upgrade = False\<rparr>
      (start [(''foo'', True)])
   = (Exit_json True ''installed  package(s)'',
      \<lparr>world = [(''foo'', True)],
       log = [Apk_info ''foo'', Apk_version ''foo'', Apk_add True False []]\<rparr>)
   \<and> map render [Apk_info ''foo'', Apk_version ''foo'', Apk_add True False []]
       = [''apk -v info --installed foo'', ''apk version foo'', ''apk add --upgrade '']
   \<and> fst (main (toy False) True
        \<lparr>p_state = Latest, p_name = Some [''foo''], p_update_cache = False, p_upgrade = False\<rparr>
        (start (world (snd (main (toy False) True
          \<lparr>p_state = Latest, p_name = Some [''foo''], p_update_cache = False,
            p_upgrade = False\<rparr>
          (start [(''foo'', True)]))))))
     = Exit_json True ''installed  package(s)''"
  by (simp add: main_def install_packages_def query_package_def query_latest_def
      run_command_def toy_def toy_apk_def toy_listing_def toy_names_def words_of_def start_def
      nl_def is_latest_def search_pattern_def word_chars_def space_chars_def Let_def)

text \<open>
  On the same database the other two states do reach a state in which the second run
  has nothing to do: bar is installed by the first run with state present, foo is
  removed by the first run with state absent.
\<close>

lemma toy_present_twice:
  "main (toy False) True
      \<lparr>p_state = Present, p_name = Some [''bar''], p_update_cache = False, p_upgrade = False\<rparr>
      (start [(''foo'', True)])
   = (Exit_json True ''installed bar package(s)'',
      \<lparr>world = [(''foo'', True), (''bar'', False)],
       log = [Apk_info ''bar'', Apk_add False False [''bar'']]\<rparr>)
   \<and> main (toy False) True
      \<lparr>p_state = Present, p_name = Some [''bar''], p_update_cache = False, p_upgrade = False\<rparr>
      (start [(''foo'', True), (''bar'', False)])
   = (Exit_json False ''package(s) already installed'',
      \<lparr>world = [(''foo'', True), (''bar'', False)], log = [Apk_info ''bar'']\<rparr>)"
  by (simp add: main_def install_packages_def query_package_def
      run_command_def toy_def toy_apk_def toy_names_def words_of_def start_def Let_def)

lemma toy_absent_twice:
  "main (toy False) True
      \<lparr>p_state = Absent, p_name = Some [''foo''], p_update_cache = False, p_upgrade = False\<rparr>
      (start [(''foo'', True)])
   = (Exit_json True ''removed foo package(s)'',
      \<lparr>world = [], log = [Apk_info ''foo'', Apk_del False [''foo'']]\<rparr>)
   \<and> main (toy False) True
      \<lparr>p_state = Absent, p_name = Some [''foo''], p_update_cache = False, p_upgrade = False\<rparr>
      (start [])
   = (Exit_json False ''package(s) already removed'', \<lparr>world = [], log = [Apk_info ''foo'']\<rparr>)"
  by (simp add: main_def remove_packages_def query_package_def
      run_command_def toy_def toy_apk_def toy_names_def words_of_def start_def Let_def)

section \<open>The refresh and upgrade steps\<close>

lemma update_package_db_eq:
  "update_package_db m s =
     (if fst (fst (backend m (render Apk_update) (world s))) = 0 then Inr True
      else Inl (Fail_json ''could not update package db''),
      \<lparr>world = snd (backend m (render Apk_update) (world s)), log = log s @ [Apk_update]\<rparr>)"
  by (simp add: update_package_db_def run_command_eq split: prod.split)

lemma upgrade_packages_eq:
  "upgrade_packages m s =
     (let r = backend m (render (Apk_upgrade (check_mode m))) (world s)
      in (if fst (fst r) \<noteq> 0 then Fail_json ''failed to upgrade packages''
          else if starts_OK (snd (fst r)) then Exit_json False ''packages already upgraded''
          else Exit_json True ''upgraded packages'',
          \<lparr>world = snd r, log = log s @ [Apk_upgrade (check_mode m)]\<rparr>))"
  by (simp add: upgrade_packages_def run_command_eq Let_def split: prod.split)

lemma refresh_without_names_ends_run:
  assumes "p_update_cache p" and "no_names (p_name p)"
      and "fst (fst (backend m (render Apk_update) (world s))) = 0"
  shows "main m True p s =
           (Exit_json True ''updated repository indexes'',
            \<lparr>world = snd (backend m (render Apk_update) (world s)),
             log = log s @ [Apk_update]\<rparr>)"
  using assms by (simp add: main_def update_package_db_eq)

lemma upgrade_without_refresh_ends_run:
  assumes "p_upgrade p" and "\<not> p_update_cache p"
  shows "main m True p s = upgrade_packages m s"
  using assms by (simp add: main_def)

lemma upgrade_after_refresh_ends_run:
  assumes "p_upgrade p" and "p_update_cache p" and "\<not> no_names (p_name p)"
      and "fst (fst (backend m (render Apk_update) (world s))) = 0"
  shows "main m True p s =
           upgrade_packages m
             \<lparr>world = snd (backend m (render Apk_update) (world s)),
              log = log s @ [Apk_update]\<rparr>"
  using assms by (simp add: main_def update_package_db_eq)

text \<open>
  C3. A successful refresh is claimed to end the run exactly when neither names nor an
  upgrade-all request come with it. The code looks at the names only: with update_cache
  and upgrade both set and no names, the run ends after \<^verbatim>\<open>apk update\<close> with "updated
  repository indexes", and \<^verbatim>\<open>apk upgrade\<close> is never run.
\<close>

theorem C3_refresh_with_upgrade_stops:
  "main (foo_stale False) True
      \<lparr>p_state = Present, p_name = None, p_update_cache = True, p_upgrade = True\<rparr>
      (start ())
   = (Exit_json True ''updated repository indexes'', \<lparr>world = (), log = [Apk_update]\<rparr>)"
  by (simp add: main_def update_package_db_def run_command_def foo_stale_def
      foo_backend_def start_def)

text \<open>
  C7. Upgrade-all is claimed to run whenever it is requested, after any requested
  refresh. With update_cache set and an empty list of names it does not: the run ends
  after the refresh, in check mode as well, and no upgrade command is issued.
\<close>

theorem C7_upgrade_skipped_after_refresh:
  "fst (main (foo_stale True) True
          \<lparr>p_state = Latest, p_name = Some [], p_update_cache = True, p_upgrade = True\<rparr>
          (start ()))
     = Exit_json True ''updated repository indexes''
   \<and> Apk_upgrade True \<notin> set (log (snd (main (foo_stale True) True
          \<lparr>p_state = Latest, p_name = Some [], p_update_cache = True, p_upgrade = True\<rparr>
          (start ()))))"
  by (simp add: main_def update_package_db_def run_command_def foo_stale_def
      foo_backend_def start_def)

section \<open>A failed installed query\<close>




section \<open>The matcher and the text it accepts\<close>

lemma greedy_splits_iff:
  "r \<in> set (greedy_splits C s) \<longleftrightarrow> (\<exists>a. s = a @ r \<and> run_of C a)"
proof (induction s)
  case Nil
  show ?case by (simp add: run_of_def)
next
  case (Cons x xs)
  show ?case
  proof (cases "in_cls C x")
    case False
    then show ?thesis
      by (auto simp add: run_of_def Cons_eq_append_conv)
  next
    case True
    have "(\<exists>a. x # xs = a @ r \<and> run_of C a) \<longleftrightarrow> (r = xs \<or> (\<exists>a. xs = a @ r \<and> run_of C a))"
      using True by (auto simp add: run_of_def Cons_eq_append_conv)
    with True Cons.IH show ?thesis by auto
  qed
qed

lemma match_here_Chr:
  "g \<in> set (match_here (Chr c # its) s g0) \<longleftrightarrow> (\<exists>r. s = c # r \<and> g \<in> set (match_here its r g0))"
  by (cases s) auto

lemma match_here_Any:
  "g \<in> set (match_here (Any_group # its) s g0)
     \<longleftrightarrow> (\<exists>x r. s = x # r \<and> x \<noteq> CHR 0x0A \<and> g \<in> set (match_here its r (Some [x])))"
  by (cases s) auto

lemma match_here_Plus:
  "g \<in> set (match_here (Plus C # its) s g0)
     \<longleftrightarrow> (\<exists>a r. s = a @ r \<and> run_of C a \<and> g \<in> set (match_here its r g0))"
proof
  assume "g \<in> set (match_here (Plus C # its) s g0)"
  then obtain r where "r \<in> set (greedy_splits C s)" "g \<in> set (match_here its r g0)"
    by auto
  then show "\<exists>a r. s = a @ r \<and> run_of C a \<and> g \<in> set (match_here its r g0)"
    unfolding greedy_splits_iff by blast
next
  assume "\<exists>a r. s = a @ r \<and> run_of C a \<and> g \<in> set (match_here its r g0)"
  then obtain a r where "s = a @ r" "run_of C a" "g \<in> set (match_here its r g0)"
    by blast
  moreover from this have "r \<in> set (greedy_splits C s)"
    unfolding greedy_splits_iff by blast
  ultimately show "g \<in> set (match_here (Plus C # its) s g0)"
    by auto
qed

lemma match_here_name:
  "g \<in> set (match_here (map Chr nm @ its) s g0)
     \<longleftrightarrow> (\<exists>r. s = nm @ r \<and> g \<in> set (match_here its r g0))"
proof (induction nm arbitrary: s)
  case Nil
  show ?case by simp
next
  case (Cons c nm)
  show ?case
    by (cases s) (auto simp add: Cons.IH)
qed


lemma match_here_pattern:
  "g \<in> set (match_here (search_pattern name) s None)
     \<longleftrightarrow> (\<exists>mk. g = Some [mk] \<and> entry_here name mk s)"
proof
  assume "g \<in> set (match_here (search_pattern name) s None)"
  then obtain t1 where a1: "s = name @ t1"
    and m1: "g \<in> set (match_here [Chr CHR ''-'', Plus Word_dot, Chr CHR ''-'', Plus Word,
               Plus Space, Any_group, Plus Space, Plus Word_dot, Chr CHR ''-'', Plus Word,
               Plus Space] t1 None)"
    unfolding search_pattern_def match_here_name by blast
  from m1 obtain t2 where a2: "t1 = CHR ''-'' # t2"
    and m2: "g \<in> set (match_here [Plus Word_dot, Chr CHR ''-'', Plus Word,
               Plus Space, Any_group, Plus Space, Plus Word_dot, Chr CHR ''-'', Plus Word,
               Plus Space] t2 None)"
    unfolding match_here_Chr by blast
  from m2 obtain v1 t3 where a3: "t2 = v1 @ t3" "run_of Word_dot v1"
    and m3: "g \<in> set (match_here [Chr CHR ''-'', Plus Word,
               Plus Space, Any_group, Plus Space, Plus Word_dot, Chr CHR ''-'', Plus Word,
               Plus Space] t3 None)"
    unfolding match_here_Plus [of _ Word_dot] by blast
  from m3 obtain t4 where a4: "t3 = CHR ''-'' # t4"
    and m4: "g \<in> set (match_here [Plus Word,
               Plus Space, Any_group, Plus Space, Plus Word_dot, Chr CHR ''-'', Plus Word,
               Plus Space] t4 None)"
    unfolding match_here_Chr by blast
  from m4 obtain r1 t5 where a5: "t4 = r1 @ t5" "run_of Word r1"
    and m5: "g \<in> set (match_here [Plus Space, Any_group, Plus Space, Plus Word_dot,
               Chr CHR ''-'', Plus Word, Plus Space] t5 None)"
    unfolding match_here_Plus [of _ Word] by blast
  from m5 obtain w1 t6 where a6: "t5 = w1 @ t6" "run_of Space w1"
    and m6: "g \<in> set (match_here [Any_group, Plus Space, Plus Word_dot,
               Chr CHR ''-'', Plus Word, Plus Space] t6 None)"
    unfolding match_here_Plus [of _ Space] by blast
  from m6 obtain mk t7 where a7: "t6 = mk # t7" "mk \<noteq> CHR 0x0A"
    and m7: "g \<in> set (match_here [Plus Space, Plus Word_dot,
               Chr CHR ''-'', Plus Word, Plus Space] t7 (Some [mk]))"
    unfolding match_here_Any by blast
  from m7 obtain w2 t8 where a8: "t7 = w2 @ t8" "run_of Space w2"
    and m8: "g \<in> set (match_here [Plus Word_dot, Chr CHR ''-'', Plus Word, Plus Space] t8
               (Some [mk]))"
    unfolding match_here_Plus [of _ Space] by blast
  from m8 obtain v2 t9 where a9: "t8 = v2 @ t9" "run_of Word_dot v2"
    and m9: "g \<in> set (match_here [Chr CHR ''-'', Plus Word, Plus Space] t9 (Some [mk]))"
    unfolding match_here_Plus [of _ Word_dot] by blast
  from m9 obtain t10 where a10: "t9 = CHR ''-'' # t10"
    and m10: "g \<in> set (match_here [Plus Word, Plus Space] t10 (Some [mk]))"
    unfolding match_here_Chr by blast
  from m10 obtain r2 t11 where a11: "t10 = r2 @ t11" "run_of Word r2"
    and m11: "g \<in> set (match_here [Plus Space] t11 (Some [mk]))"
    unfolding match_here_Plus [of _ Word] by blast
  from m11 obtain w3 rest where a12: "t11 = w3 @ rest" "run_of Space w3"
    and m12: "g \<in> set (match_here [] rest (Some [mk]))"
    unfolding match_here_Plus [of _ Space] by blast
  from m12 have g: "g = Some [mk]" by simp
  have "s = name @ ''-'' @ v1 @ ''-'' @ r1 @ w1 @ [mk] @ w2 @ v2 @ ''-'' @ r2 @ w3 @ rest"
    by (simp add: a1 a2 a3(1) a4 a5(1) a6(1) a7(1) a8(1) a9(1) a10 a11(1) a12(1))
  then have "entry_here name mk s"
    unfolding entry_here_def
    using a3(2) a5(2) a6(2) a7(2) a8(2) a9(2) a11(2) a12(2) by blast
  with g show "\<exists>mk. g = Some [mk] \<and> entry_here name mk s" by blast
next
  assume "\<exists>mk. g = Some [mk] \<and> entry_here name mk s"
  then obtain mk v1 r1 w1 w2 v2 r2 w3 rest where
    g: "g = Some [mk]" and
    s: "s = name @ ''-'' @ v1 @ ''-'' @ r1 @ w1 @ [mk] @ w2 @ v2 @ ''-'' @ r2 @ w3 @ rest" and
    r: "run_of Word_dot v1" "run_of Word r1" "run_of Space w1" "mk \<noteq> CHR 0x0A"
       "run_of Space w2" "run_of Word_dot v2" "run_of Word r2" "run_of Space w3"
    unfolding entry_here_def by blast
  have 0: "g \<in> set (match_here [] rest (Some [mk]))"
    using g by simp
  have 1: "g \<in> set (match_here [Plus Space] (w3 @ rest) (Some [mk]))"
    unfolding match_here_Plus [of _ Space] using r(8) 0 by blast
  have 2: "g \<in> set (match_here [Plus Word, Plus Space] (r2 @ w3 @ rest) (Some [mk]))"
    unfolding match_here_Plus [of _ Word] using r(7) 1 by blast
  have 3: "g \<in> set (match_here [Chr CHR ''-'', Plus Word, Plus Space]
                       (''-'' @ r2 @ w3 @ rest) (Some [mk]))"
    unfolding match_here_Chr using 2 by simp
  have 4: "g \<in> set (match_here [Plus Word_dot, Chr CHR ''-'', Plus Word, Plus Space]
                       (v2 @ ''-'' @ r2 @ w3 @ rest) (Some [mk]))"
    unfolding match_here_Plus [of _ Word_dot] using r(6) 3 by blast
  have 5: "g \<in> set (match_here [Plus Space, Plus Word_dot, Chr CHR ''-'', Plus Word, Plus Space]
                       (w2 @ v2 @ ''-'' @ r2 @ w3 @ rest) (Some [mk]))"
    unfolding match_here_Plus [of _ Space] using r(5) 4 by blast
  have 6: "g \<in> set (match_here [Any_group, Plus Space, Plus Word_dot, Chr CHR ''-'', Plus Word,
                                  Plus Space]
                       ([mk] @ w2 @ v2 @ ''-'' @ r2 @ w3 @ rest) None)"
    unfolding match_here_Any using r(4) 5 by simp
  have 7: "g \<in> set (match_here [Plus Space, Any_group, Plus Space, Plus Word_dot, Chr CHR ''-'',
                                  Plus Word, Plus Space]
                       (w1 @ [mk] @ w2 @ v2 @ ''-'' @ r2 @ w3 @ rest) None)"
    unfolding match_here_Plus [of _ Space] using r(3) 6 by blast
  have 8: "g \<in> set (match_here [Plus Word, Plus Space, Any_group, Plus Space, Plus Word_dot,
                                  Chr CHR ''-'', Plus Word, Plus Space]
                       (r1 @ w1 @ [mk] @ w2 @ v2 @ ''-'' @ r2 @ w3 @ rest) None)"
    unfolding match_here_Plus [of _ Word] using r(2) 7 by blast
  have 9: "g \<in> set (match_here [Chr CHR ''-'', Plus Word, Plus Space, Any_group, Plus Space,
                                  Plus Word_dot, Chr CHR ''-'', Plus Word, Plus Space]
                       (''-'' @ r1 @ w1 @ [mk] @ w2 @ v2 @ ''-'' @ r2 @ w3 @ rest) None)"
    unfolding match_here_Chr using 8 by simp
  have 10: "g \<in> set (match_here [Plus Word_dot, Chr CHR ''-'', Plus Word, Plus Space, Any_group,
                                   Plus Space, Plus Word_dot, Chr CHR ''-'', Plus Word, Plus Space]
                       (v1 @ ''-'' @ r1 @ w1 @ [mk] @ w2 @ v2 @ ''-'' @ r2 @ w3 @ rest) None)"
    unfolding match_here_Plus [of _ Word_dot] using r(1) 9 by blast
  have 11: "g \<in> set (match_here [Chr CHR ''-'', Plus Word_dot, Chr CHR ''-'', Plus Word, Plus Space,
                                   Any_group, Plus Space, Plus Word_dot, Chr CHR ''-'', Plus Word,
                                   Plus Space]
                       (''-'' @ v1 @ ''-'' @ r1 @ w1 @ [mk] @ w2 @ v2 @ ''-'' @ r2 @ w3 @ rest)
                       None)"
    unfolding match_here_Chr using 10 by simp
  show "g \<in> set (match_here (search_pattern name) s None)"
    unfolding search_pattern_def match_here_name s using 11 by blast
qed


section \<open>The marker of an entry\<close>

lemma run_stop_unique:
  assumes "a @ x # b = a' @ y # b'"
      and "list_all P a" and "list_all P a'" and "\<not> P x" and "\<not> P y"
  shows "a = a' \<and> x = y \<and> b = b'"
proof -
  have "takeWhile P (a @ x # b) = a"
    using assms(2,4) by (simp add: takeWhile_tail list_all_iff)
  moreover have "takeWhile P (a' @ y # b') = a'"
    using assms(3,5) by (simp add: takeWhile_tail list_all_iff)
  ultimately have "a = a'" using assms(1) by simp
  with assms(1) show ?thesis by simp
qed

lemma dash_not_word_dot: "\<not> in_cls Word_dot CHR ''-''"
  by (simp add: word_chars_def)

lemma lt_not_word_dot: "\<not> in_cls Word_dot CHR ''<''"
  by (simp add: word_chars_def)

lemma lt_not_space: "\<not> in_cls Space CHR ''<''"
  by (simp add: space_chars_def)

lemma space_not_word_dot: "in_cls Space c \<Longrightarrow> \<not> in_cls Word_dot c"
  by (auto simp add: space_chars_def word_chars_def)

lemma space_not_word: "in_cls Space c \<Longrightarrow> \<not> in_cls Word c"
  by (auto simp add: space_chars_def word_chars_def)

lemma entry_marker_unique:
  assumes "entry_here name CHR ''<'' s" and "entry_here name mk s"
  shows "mk = CHR ''<''"
proof -
  from assms(1) obtain v1 r1 w1 w2 v2 r2 w3 rest where
    s: "s = name @ ''-'' @ v1 @ ''-'' @ r1 @ w1 @ ''<'' @ w2 @ v2 @ ''-'' @ r2 @ w3 @ rest" and
    v1: "list_all (in_cls Word_dot) v1" and r1: "list_all (in_cls Word) r1" and
    w1: "w1 \<noteq> []" "list_all (in_cls Space) w1"
    unfolding entry_here_def run_of_def by auto
  from assms(2) obtain v1' r1' w1' w2' v2' r2' w3' rest' where
    s': "s = name @ ''-'' @ v1' @ ''-'' @ r1' @ w1' @ [mk] @ w2' @ v2' @ ''-'' @ r2' @ w3' @ rest'"
    and v1': "list_all (in_cls Word_dot) v1'" and r1': "list_all (in_cls Word) r1'"
    and w1': "w1' \<noteq> []" "list_all (in_cls Space) w1'"
    and w2': "list_all (in_cls Space) w2'"
    and v2': "v2' \<noteq> []" "list_all (in_cls Word_dot) v2'"
    unfolding entry_here_def run_of_def by auto
  let ?T = "w2 @ v2 @ ''-'' @ r2 @ w3 @ rest"
  let ?T' = "v2' @ ''-'' @ r2' @ w3' @ rest'"
  have e1: "v1 @ CHR ''-'' # (r1 @ w1 @ ''<'' @ ?T) = v1' @ CHR ''-'' # (r1' @ w1' @ [mk] @ w2' @ ?T')"
    using s s' by simp
  have e2: "r1 @ w1 @ ''<'' @ ?T = r1' @ w1' @ [mk] @ w2' @ ?T'"
    using run_stop_unique [OF e1 v1 v1' dash_not_word_dot dash_not_word_dot] by simp
  obtain c w1t where c: "w1 = c # w1t" using w1(1) by (cases w1) auto
  obtain c' w1t' where c': "w1' = c' # w1t'" using w1'(1) by (cases w1') auto
  have sc: "in_cls Space c" "in_cls Space c'"
    using w1(2) w1'(2) c c' by auto
  have nc: "\<not> in_cls Word c" "\<not> in_cls Word c'"
    using sc by (blast dest: space_not_word)+
  have e3: "r1 @ c # (w1t @ ''<'' @ ?T) = r1' @ c' # (w1t' @ [mk] @ w2' @ ?T')"
    using e2 c c' by simp
  have e4: "w1 @ CHR ''<'' # ?T = w1' @ mk # (w2' @ ?T')"
    using run_stop_unique [OF e3 r1 r1' nc] c c' by simp
  show ?thesis
  proof (cases "in_cls Space mk")
    case False
    from run_stop_unique [OF e4 w1(2) w1'(2) lt_not_space False] show ?thesis by simp
  next
    case True
    obtain d v2t where d: "v2' = d # v2t" using v2'(1) by (cases v2') auto
    have dw: "in_cls Word_dot d" using v2'(2) d by simp
    then have nd: "\<not> in_cls Space d" using space_not_word_dot by blast
    have all: "list_all (in_cls Space) (w1' @ mk # w2')"
      using w1'(2) w2' True by simp
    have e5: "w1 @ CHR ''<'' # ?T = (w1' @ mk # w2') @ d # (v2t @ ''-'' @ r2' @ w3' @ rest')"
      using e4 d by simp
    from run_stop_unique [OF e5 w1(2) all lt_not_space nd] have "d = CHR ''<''" by simp
    with dw lt_not_word_dot show ?thesis by simp
  qed
qed

section \<open>The leftmost match\<close>

lemma re_search_iff:
  "re_search its s = Some mt \<longleftrightarrow>
     (\<exists>i \<le> length s. match_here its (drop i s) None \<noteq> []
        \<and> mt = Match (hd (match_here its (drop i s) None))
        \<and> (\<forall>j<i. match_here its (drop j s) None = []))"
proof (induction s)
  case Nil
  show ?case by (cases "match_here its [] None") auto
next
  case (Cons x xs)
  show ?case
  proof (cases "match_here its (x # xs) None")
    case (Cons g gs)
    have "(\<exists>i \<le> length (x # xs). match_here its (drop i (x # xs)) None \<noteq> []
        \<and> mt = Match (hd (match_here its (drop i (x # xs)) None))
        \<and> (\<forall>j<i. match_here its (drop j (x # xs)) None = [])) \<longleftrightarrow> mt = Match g"
    proof
      assume "\<exists>i \<le> length (x # xs). match_here its (drop i (x # xs)) None \<noteq> []
        \<and> mt = Match (hd (match_here its (drop i (x # xs)) None))
        \<and> (\<forall>j<i. match_here its (drop j (x # xs)) None = [])"
      then obtain i where i: "mt = Match (hd (match_here its (drop i (x # xs)) None))"
        "\<forall>j<i. match_here its (drop j (x # xs)) None = []" by blast
      have "i = 0"
      proof (rule ccontr)
        assume "i \<noteq> 0"
        then have "match_here its (drop 0 (x # xs)) None = []" using i(2) by blast
        with Cons show False by simp
      qed
      with i(1) Cons show "mt = Match g" by simp
    next
      assume "mt = Match g"
      with Cons have "match_here its (drop 0 (x # xs)) None \<noteq> []
        \<and> mt = Match (hd (match_here its (drop 0 (x # xs)) None))
        \<and> (\<forall>j<0. match_here its (drop j (x # xs)) None = [])" by simp
      then show "\<exists>i \<le> length (x # xs). match_here its (drop i (x # xs)) None \<noteq> []
        \<and> mt = Match (hd (match_here its (drop i (x # xs)) None))
        \<and> (\<forall>j<i. match_here its (drop j (x # xs)) None = [])" by blast
    qed
    with Cons show ?thesis by auto
  next
    case Nil
    have "(\<exists>i \<le> length (x # xs). match_here its (drop i (x # xs)) None \<noteq> []
        \<and> mt = Match (hd (match_here its (drop i (x # xs)) None))
        \<and> (\<forall>j<i. match_here its (drop j (x # xs)) None = []))
      \<longleftrightarrow> (\<exists>i \<le> length xs. match_here its (drop i xs) None \<noteq> []
        \<and> mt = Match (hd (match_here its (drop i xs) None))
        \<and> (\<forall>j<i. match_here its (drop j xs) None = []))" (is "?L \<longleftrightarrow> ?R")
    proof
      assume ?L
      then obtain i where i: "i \<le> length (x # xs)"
        "match_here its (drop i (x # xs)) None \<noteq> []"
        "mt = Match (hd (match_here its (drop i (x # xs)) None))"
        "\<forall>j<i. match_here its (drop j (x # xs)) None = []" by blast
      from i(2) Nil have "i \<noteq> 0" by (cases i) auto
      then obtain k where k: "i = Suc k" by (cases i) auto
      have "\<forall>j<k. match_here its (drop j xs) None = []"
      proof (intro allI impI)
        fix j assume "j < k"
        then have "Suc j < i" using k by simp
        with i(4) have "match_here its (drop (Suc j) (x # xs)) None = []" by blast
        then show "match_here its (drop j xs) None = []" by simp
      qed
      with i(1,2,3) k show ?R by auto
    next
      assume ?R
      then obtain k where k: "k \<le> length xs"
        "match_here its (drop k xs) None \<noteq> []"
        "mt = Match (hd (match_here its (drop k xs) None))"
        "\<forall>j<k. match_here its (drop j xs) None = []" by blast
      have "\<forall>j<Suc k. match_here its (drop j (x # xs)) None = []"
      proof (intro allI impI)
        fix j assume j: "j < Suc k"
        show "match_here its (drop j (x # xs)) None = []"
        proof (cases j)
          case 0
          with Nil show ?thesis by simp
        next
          case (Suc j')
          with j k(4) show ?thesis by simp
        qed
      qed
      with k(1,2,3) have "Suc k \<le> length (x # xs)
        \<and> match_here its (drop (Suc k) (x # xs)) None \<noteq> []
        \<and> mt = Match (hd (match_here its (drop (Suc k) (x # xs)) None))
        \<and> (\<forall>j<Suc k. match_here its (drop j (x # xs)) None = [])" by simp
      then show ?L by blast
    qed
    with Nil Cons.IH show ?thesis by simp
  qed
qed

lemma match_here_empty_iff:
  "match_here (search_pattern name) s None = [] \<longleftrightarrow> (\<forall>mk. \<not> entry_here name mk s)"
proof -
  have "match_here (search_pattern name) s None = []
          \<longleftrightarrow> (\<forall>g. g \<notin> set (match_here (search_pattern name) s None))"
    by (cases "match_here (search_pattern name) s None") auto
  then show ?thesis
    unfolding match_here_pattern by blast
qed

lemma match_here_first_lt:
  "match_here (search_pattern name) s None \<noteq> []
     \<and> hd (match_here (search_pattern name) s None) = Some ''<''
   \<longleftrightarrow> entry_here name CHR ''<'' s" (is "?L \<longleftrightarrow> ?R")
proof
  assume ?L
  then have "Some ''<'' \<in> set (match_here (search_pattern name) s None)"
    by (cases "match_here (search_pattern name) s None") auto
  then show ?R unfolding match_here_pattern by simp
next
  assume r: ?R
  then have "Some ''<'' \<in> set (match_here (search_pattern name) s None)"
    unfolding match_here_pattern by simp
  then have ne: "match_here (search_pattern name) s None \<noteq> []" by auto
  then have "hd (match_here (search_pattern name) s None)
               \<in> set (match_here (search_pattern name) s None)" by simp
  then obtain mk where mk: "hd (match_here (search_pattern name) s None) = Some [mk]"
    "entry_here name mk s" unfolding match_here_pattern by blast
  from entry_marker_unique [OF r mk(2)] mk(1) ne show ?L by simp
qed

lemma is_latest_iff:
  "is_latest name out \<longleftrightarrow>
     \<not> (\<exists>i. entry_at name CHR ''<'' out i \<and> (\<forall>j<i. \<forall>mk. \<not> entry_at name mk out j))"
proof -
  let ?M = "\<lambda>i. match_here (search_pattern name) (drop i out) None"
  have "\<not> is_latest name out
          \<longleftrightarrow> (\<exists>mt. re_search (search_pattern name) out = Some mt \<and> group2 mt = Some ''<'')"
    by (simp add: is_latest_def split: option.split)
  also have "\<dots> \<longleftrightarrow> (\<exists>i \<le> length out. (?M i \<noteq> [] \<and> hd (?M i) = Some ''<'')
                          \<and> (\<forall>j<i. ?M j = []))"
    unfolding re_search_iff by auto
  also have "\<dots> \<longleftrightarrow> (\<exists>i \<le> length out. entry_here name CHR ''<'' (drop i out)
                          \<and> (\<forall>j<i. ?M j = []))"
    by (simp only: match_here_first_lt)
  also have "\<dots> \<longleftrightarrow> (\<exists>i \<le> length out. entry_here name CHR ''<'' (drop i out)
                          \<and> (\<forall>j<i. \<forall>mk. \<not> entry_here name mk (drop j out)))"
    by (simp only: match_here_empty_iff)
  also have "\<dots> \<longleftrightarrow> (\<exists>i. entry_at name CHR ''<'' out i
                          \<and> (\<forall>j<i. \<forall>mk. \<not> entry_at name mk out j))"
    unfolding entry_at_def by (metis le_trans less_imp_le_nat)
  finally show ?thesis by blast
qed


section \<open>The update query\<close>

text \<open>
  C5, as the code has it. For a name without regex metacharacters, \<open>query_latest\<close>
  reports an update (it returns False) exactly when the leftmost place of the output
  where an entry for the name begins carries the marker \<^verbatim>\<open><\<close>. The place can be
  anywhere in the output, inside a line or inside a longer package name. When no entry
  begins anywhere in the output, no update is reported.
\<close>

theorem C5_update_iff_leftmost_entry:
  assumes "plain_name name"
  shows "fst (query_latest m name s)
           = (\<not> (\<exists>i. entry_at name CHR ''<'' (version_output m (world s) name) i
                  \<and> (\<forall>j<i. \<forall>mk. \<not> entry_at name mk (version_output m (world s) name) j)))
       \<and> ((\<forall>i mk. \<not> entry_at name mk (version_output m (world s) name) i)
            \<longrightarrow> fst (query_latest m name s) = True)"
proof -
  have "fst (query_latest m name s) = is_latest name (version_output m (world s) name)"
    by (simp add: query_latest_def run_command_def version_output_def split: prod.split)
  then show ?thesis
    unfolding is_latest_iff by auto
qed

text \<open>
  The listing of the stale foo: an update is reported, and an entry is found. An empty
  listing: no entry begins anywhere, and no update is reported.
\<close>

theorem C5_update_iff_leftmost_entry_witness:
  "plain_name ''foo''
   \<and> fst (query_latest (foo_stale False) ''foo'' (start ())) = False
   \<and> (\<exists>i. entry_at ''foo'' CHR ''<'' (version_output (foo_stale False) () ''foo'') i
          \<and> (\<forall>j<i. \<forall>mk. \<not> entry_at ''foo'' mk (version_output (foo_stale False) () ''foo'') j))
   \<and> (\<forall>i mk. \<not> entry_at ''foo'' mk (version_output (listing []) () ''foo'') i)
   \<and> fst (query_latest (listing []) ''foo'' (start ())) = True"
proof -
  have pl: "plain_name ''foo''"
    by (simp add: plain_name_def metachars_def)
  have ev: "fst (query_latest (foo_stale False) ''foo'' (start ())) = False"
    by (simp add: query_latest_def run_command_def foo_stale_def foo_backend_def
        start_def nl_def is_latest_def search_pattern_def word_chars_def space_chars_def)
  have none: "\<forall>i mk. \<not> entry_at ''foo'' mk (version_output (listing []) () ''foo'') i"
    by (simp add: entry_at_def entry_here_def version_output_def listing_def)
  show ?thesis
    using pl ev none
      C5_update_iff_leftmost_entry [OF pl, of "foo_stale False" "start ()"]
      C5_update_iff_leftmost_entry [OF pl, of "listing []" "start ()"]
    by (simp add: start_def)
qed

text \<open>
  C5, as the claim states it, fails in both directions. In the first listing the only
  line with the marker \<^verbatim>\<open><\<close> is the line of libfoo and the line of foo says it is up
  to date, yet an update is reported for foo: the pattern is found inside the name
  libfoo. In the second listing a line of foo carries the marker \<^verbatim>\<open><\<close>, yet no
  update is reported: only the leftmost match is looked at.
\<close>

theorem C5_update_query_counterexample:
  "fst (query_latest (listing shadowed_listing) ''foo'' (start ())) = False
   \<and> \<not> spec_update_available ''foo'' shadowed_listing
   \<and> fst (query_latest (listing two_line_listing) ''foo'' (start ())) = True
   \<and> spec_update_available ''foo'' two_line_listing"
  by (simp add: query_latest_def run_command_def listing_def shadowed_listing_def
      two_line_listing_def start_def nl_def is_latest_def search_pattern_def
      word_chars_def space_chars_def spec_update_available_def lines_of_def
      spec_own_line_newer_def fields_of_def)

section \<open>Classification and the remove batch\<close>



lemma render_infos:
  "map render (map Apk_info names) = map (\<lambda>n. ''apk -v info --installed '' @ n) names"
  by simp



text \<open>
  C8. With state absent the remove batch is the list of the names reported installed.
  An empty batch ends the run with changed = false, the message "package(s) already
  removed" and no command but the queries; otherwise one remove transaction is
  submitted, and the run reports changed = true when it succeeds and fails when it does
  not. The transaction is the command line \<^verbatim>\<open>apk del --purge\<close>, with \<^verbatim>\<open>--simulate\<close> in
  check mode, followed by the names of the batch.
\<close>

theorem C8_absent_remove_batch:
  assumes "read_only m"
  shows "let batch = filter (is_installed m (world s)) names;
             r = remove_packages m names s;
             queries = map (\<lambda>n. ''apk -v info --installed '' @ n) names;
             line = ''apk del --purge'' @ (if check_mode m then '' --simulate'' else [])
                      @ spaced batch;
             tx = backend m line (world s)
         in (batch = [] \<longrightarrow>
               r = (Exit_json False ''package(s) already removed'',
                    \<lparr>world = world s, log = log s @ map Apk_info names\<rparr>)
             \<and> map render (log (snd r)) = map render (log s) @ queries)
          \<and> (batch \<noteq> [] \<longrightarrow>
               log (snd r) = log s @ map Apk_info names @ [Apk_del (check_mode m) batch]
             \<and> map render (log (snd r)) = map render (log s) @ queries @ [line]
             \<and> world (snd r) = snd tx
             \<and> (fst (fst tx) = 0 \<longrightarrow>
                  fst r = Exit_json True (''removed'' @ spaced batch @ '' package(s)''))
             \<and> (fst (fst tx) \<noteq> 0 \<longrightarrow>
                  fst r = Fail_json (''failed to remove'' @ spaced batch @ '' package(s)'')))"
proof (cases "filter (is_installed m (world s)) names = []")
  case True
  then show ?thesis
    by (simp add: remove_packages_ro [OF assms] Let_def)
next
  case False
  have j: "CHR '' '' # join_sp (filter (is_installed m (world s)) names)
             = spaced (filter (is_installed m (world s)) names)"
    by (rule join_sp_spaced [OF False])
  from False show ?thesis
    by (simp add: remove_packages_ro [OF assms] Let_def j)
qed

text \<open>
  foo is installed and bar is not. The remove transaction succeeds, is not needed, and
  is refused in check mode.
\<close>

theorem C8_absent_remove_batch_witness:
  "read_only (foo_stale False)
   \<and> remove_packages (foo_stale False) [''bar'', ''foo''] (start ())
       = (Exit_json True ''removed foo package(s)'',
          \<lparr>world = (), log = [Apk_info ''bar'', Apk_info ''foo'', Apk_del False [''foo'']]\<rparr>)
   \<and> map render (log (snd (remove_packages (foo_stale False) [''bar'', ''foo''] (start ()))))
       = [''apk -v info --installed bar'', ''apk -v info --installed foo'',
          ''apk del --purge foo'']
   \<and> remove_packages (foo_stale False) [''bar''] (start ())
       = (Exit_json False ''package(s) already removed'',
          \<lparr>world = (), log = [Apk_info ''bar'']\<rparr>)
   \<and> read_only (foo_locked True)
   \<and> remove_packages (foo_locked True) [''foo''] (start ())
       = (Fail_json ''failed to remove foo package(s)'',
          \<lparr>world = (), log = [Apk_info ''foo'', Apk_del True [''foo'']]\<rparr>)
   \<and> map render (log (snd (remove_packages (foo_locked True) [''foo''] (start ()))))
       = [''apk -v info --installed foo'', ''apk del --purge --simulate foo'']"
proof -
  have ro: "read_only (foo_stale False)" by (rule foo_stale_read_only)
  have ro': "read_only (foo_locked True)" by (rule foo_locked_read_only)
  have tx: "fst (fst (backend (foo_stale False) ''apk del --purge foo'' ())) = 0"
    by (simp add: foo_stale_def foo_backend_def)
  have tx': "fst (fst (backend (foo_locked True) ''apk del --purge --simulate foo'' ())) = 1"
    by (simp add: foo_locked_def foo_backend_def)
  have chk: "check_mode (foo_stale False) = False" "check_mode (foo_locked True) = True"
    by (simp_all add: foo_stale_def foo_locked_def)
  show ?thesis
    using ro ro' tx tx'
      C8_absent_remove_batch [OF ro, of "start ()" "[''bar'', ''foo'']"]
      C8_absent_remove_batch [OF ro, of "start ()" "[''bar'']"]
      C8_absent_remove_batch [OF ro', of "start ()" "[''foo'']"]
    by (simp add: Let_def foo_stale_installed foo_locked_installed start_def chk spaced_def
        prod_eq_iff)
qed

section \<open>The two batches of a run\<close>

lemma install_batch_Nil: "install_batch [] = []"
  by (simp add: install_batch_def)

lemma remove_batch_Nil: "remove_batch [] = []"
  by (simp add: remove_batch_def)

lemma install_batch_Cons: "install_batch (c # cs) = add_names c @ install_batch cs"
  by (simp add: install_batch_def)

lemma remove_batch_Cons: "remove_batch (c # cs) = del_names c @ remove_batch cs"
  by (simp add: remove_batch_def)

lemma install_batch_snoc: "install_batch (cs @ [c]) = install_batch cs @ add_names c"
  by (simp add: install_batch_def)

lemma remove_batch_snoc: "remove_batch (cs @ [c]) = remove_batch cs @ del_names c"
  by (simp add: remove_batch_def)

lemma query_package_log: "log (snd (query_package m n s)) = log s @ [Apk_info n]"
  by (simp add: query_package_def run_command_eq split: prod.split)

lemma query_latest_log: "log (snd (query_latest m n s)) = log s @ [Apk_version n]"
  by (simp add: query_latest_def run_command_eq split: prod.split)

lemma install_scan_batches:
  "install_batch (log (snd (install_scan m st names up un s))) = install_batch (log s)
   \<and> remove_batch (log (snd (install_scan m st names up un s))) = remove_batch (log s)"
proof (induction names arbitrary: up un s st)
  case Nil
  show ?case by simp
next
  case (Cons n names)
  obtain inst s1 where qp: "query_package m n s = (inst, s1)" by force
  obtain r s2 where ql: "query_latest m n s1 = (r, s2)" by force
  have l1: "log s1 = log s @ [Apk_info n]"
    using query_package_log [of m n s] qp by simp
  have l2: "log s2 = log s1 @ [Apk_version n]"
    using query_latest_log [of m n s1] ql by simp
  have b1: "install_batch (log s1) = install_batch (log s)"
           "remove_batch (log s1) = remove_batch (log s)"
    by (simp_all add: l1 install_batch_snoc remove_batch_snoc)
  have b2: "install_batch (log s2) = install_batch (log s)"
           "remove_batch (log s2) = remove_batch (log s)"
    by (simp_all add: l2 b1 install_batch_snoc remove_batch_snoc)
  show ?case
    by (simp add: qp ql Cons.IH b1 b2)
qed

lemma remove_scan_batches:
  "install_batch (log (snd (remove_scan m names inst s))) = install_batch (log s)
   \<and> remove_batch (log (snd (remove_scan m names inst s))) = remove_batch (log s)"
proof (induction names arbitrary: inst s)
  case Nil
  show ?case by simp
next
  case (Cons n names)
  obtain i s1 where qp: "query_package m n s = (i, s1)" by force
  have l1: "log s1 = log s @ [Apk_info n]"
    using query_package_log [of m n s] qp by simp
  have b1: "install_batch (log s1) = install_batch (log s)"
           "remove_batch (log s1) = remove_batch (log s)"
    by (simp_all add: l1 install_batch_snoc remove_batch_snoc)
  show ?case
    by (simp add: qp Cons.IH b1)
qed

lemma install_packages_no_remove:
  "remove_batch (log (snd (install_packages m names st s))) = remove_batch (log s)"
proof -
  obtain r s1 where sc: "install_scan m st names False [] s = (r, s1)"
    by (metis surj_pair)
  have "remove_batch (log s1) = remove_batch (log s)"
    using install_scan_batches [of m st names False "[]" s] sc by simp
  then show ?thesis
    by (simp add: install_packages_def sc run_command_eq remove_batch_snoc
        split: prod.split)
qed

lemma remove_packages_no_install:
  "install_batch (log (snd (remove_packages m names s))) = install_batch (log s)"
proof -
  obtain r s1 where sc: "remove_scan m names [] s = (r, s1)" by force
  have "install_batch (log s1) = install_batch (log s)"
    using remove_scan_batches [of m names "[]" s] sc by simp
  then show ?thesis
    by (simp add: remove_packages_def sc run_command_eq install_batch_snoc
        split: prod.split)
qed

lemma main_one_batch:
  "install_batch (log (snd (main m apk_exists p (start w)))) = []
   \<or> remove_batch (log (snd (main m apk_exists p (start w)))) = []"
proof (cases "normalize_state (p_state p) = Absent")
  case True
  then show ?thesis
    by (simp add: main_def update_package_db_eq upgrade_packages_eq
        remove_packages_no_install start_def install_batch_Nil install_batch_Cons Let_def
        split: option.split)
next
  case False
  then show ?thesis
    by (simp add: main_def update_package_db_eq upgrade_packages_eq
        install_packages_no_remove start_def remove_batch_Nil remove_batch_Cons Let_def
        split: option.split)
qed

text \<open>
  C9. In every run the names handed to \<^verbatim>\<open>apk add\<close> and the names handed to
  \<^verbatim>\<open>apk del\<close> are disjoint: a run issues at most one of the two commands.
\<close>

theorem C9_batches_disjoint:
  "set (install_batch (log (snd (main m apk_exists p (start w)))))
     \<inter> set (remove_batch (log (snd (main m apk_exists p (start w))))) = {}"
  using main_one_batch [of m apk_exists p w] by auto

section \<open>Duplicates in the list of names\<close>








end
